theory Spec2Isabelle
  imports Main "HOL-Library.Finite_Map"
begin

text \<open>
  The rule type of the Kyverno policy API (\<open>api/kyverno/v1/rule_types.go\<close>): the effect
  predicates, the kind accessors, the check that a rule declares one operation, the
  detector of rules whose match block is swallowed by their exclude block, and \<open>Validate\<close>,
  which collects the errors of all checks.
\<close>

section \<open>Go values: slices, maps, pointers\<close>

text \<open>
  A Go slice is either \<open>nil\<close> or present (possibly with no element); \<open>len\<close> and
  \<open>range\<close> do not tell the two apart, \<open>reflect.DeepEqual\<close> and \<open>!= nil\<close> do.
  A slice is therefore a \<open>'a list option\<close> with \<open>None\<close> for \<open>nil\<close>, a map is a
  finite map under \<open>option\<close>, a pointer is an \<open>option\<close>. On these types HOL
  equality is \<open>reflect.DeepEqual\<close>: both nil or both present, same length, equal
  elements; maps with the same keys and equal values; pointers equal when both nil
  or when the values they point to are equal.
\<close>

type_synonym 'a slice = "'a list option"

type_synonym ('k, 'v) gomap = "('k, 'v) fmap option"

definition len :: "'a slice \<Rightarrow> nat" where
  "len s = (case s of None \<Rightarrow> 0 | Some xs \<Rightarrow> length xs)"

definition range_slice :: "'a slice \<Rightarrow> 'a list" where
  "range_slice s = (case s of None \<Rightarrow> [] | Some xs \<Rightarrow> xs)"

definition append_slice :: "'a slice \<Rightarrow> 'a list \<Rightarrow> 'a slice" where
  \<comment> \<open>\<open>append(s, xs...)\<close>: appending nothing to \<open>nil\<close> leaves \<open>nil\<close>.\<close>
  "append_slice s xs = (case s of None \<Rightarrow> (if xs = [] then None else Some xs) | Some ys \<Rightarrow> Some (ys @ xs))"

definition len_map :: "('k, 'v) gomap \<Rightarrow> nat" where
  "len_map m = (case m of None \<Rightarrow> 0 | Some f \<Rightarrow> card (fmdom' f))"

definition range_map :: "('k, 'v) gomap \<Rightarrow> ('k \<times> 'v) set" where
  \<comment> \<open>the key/value pairs a \<open>for k, v := range m\<close> visits (in no fixed order)\<close>
  "range_map m = (case m of None \<Rightarrow> {} | Some f \<Rightarrow> (\<lambda>k. (k, the (fmlookup f k))) ` fmdom' f)"

definition index_map :: "('k, string) gomap \<Rightarrow> 'k \<Rightarrow> string" where
  \<comment> \<open>\<open>m[k]\<close>: the zero value (the empty string) for a missing key or a nil map\<close>
  "index_map m k = (case m of None \<Rightarrow> [] | Some f \<Rightarrow> (case fmlookup f k of None \<Rightarrow> [] | Some v \<Rightarrow> v))"

text \<open>\<open>sets.String\<close> of k8s.io/apimachinery: a set of strings.\<close>

definition NewString :: "'a list \<Rightarrow> 'a set" where
  "NewString items = set items"

definition Has :: "'a set \<Rightarrow> 'a \<Rightarrow> bool" where
  "Has s item = (item \<in> s)"

definition HasAll :: "'a set \<Rightarrow> 'a list \<Rightarrow> bool" where
  "HasAll s items = list_all (\<lambda>item. Has s item) items"

section \<open>JSON encoding of subjects and label-selector requirements\<close>

text \<open>
  The detector compares subjects and match expressions through the text that
  \<open>json.Marshal\<close> gives them. The model keeps the JSON document as a tree: the fields
  in declaration order, a field tagged \<open>omitempty\<close> left out when it is the empty
  string or a slice of length 0. Two values whose strings are valid UTF-8, as the strings
  of a policy decoded from JSON or YAML are, have the same JSON text exactly when they have
  the same tree (\<open>json.Marshal\<close> replaces every invalid byte by U+FFFD).
\<close>

datatype json = JString string | JArray "json list" | JObject "(string \<times> json) list"

record Subject =
  Subject_Kind :: string
  Subject_APIGroup :: string
  Subject_Name :: string
  Subject_Namespace :: string

definition json_Marshal_Subject :: "Subject \<Rightarrow> json" where
  "json_Marshal_Subject s = JObject (
     [(''kind'', JString (Subject_Kind s))]
     @ (if Subject_APIGroup s = [] then [] else [(''apiGroup'', JString (Subject_APIGroup s))])
     @ [(''name'', JString (Subject_Name s))]
     @ (if Subject_Namespace s = [] then [] else [(''namespace'', JString (Subject_Namespace s))]))"

record LabelSelectorRequirement =
  Key :: string
  Operator :: string
  Values :: "string slice"

definition json_Marshal_Requirement :: "LabelSelectorRequirement \<Rightarrow> json" where
  "json_Marshal_Requirement x = JObject (
     [(''key'', JString (Key x)), (''operator'', JString (Operator x))]
     @ (if len (Values x) = 0 then [] else [(''values'', JArray (map JString (range_slice (Values x))))]))"

section \<open>Selectors and rules\<close>

record LabelSelector =
  MatchLabels :: "(string, string) gomap"
  MatchExpressions :: "LabelSelectorRequirement slice"

record UserInfo =
  Roles :: "string slice"
  ClusterRoles :: "string slice"
  Subjects :: "Subject slice"

record ResourceDescription =
  Kinds :: "string slice"
  Name :: string
  Names :: "string slice"
  Namespaces :: "string slice"
  Annotations :: "(string, string) gomap"
  Selector :: "LabelSelector option"
  NamespaceSelector :: "LabelSelector option"

text \<open>
  \<open>ResourceFilter\<close> embeds \<open>UserInfo\<close> and \<open>ResourceDescription\<close>; \<open>MatchResources\<close>
  embeds the same two structs and adds the \<open>any\<close> and \<open>all\<close> lists of filters, so it
  is the record extended by the two lists. The lists are called \<open>Any_list\<close> and
  \<open>All_list\<close> here.
\<close>

record ResourceFilter =
  UserInfo :: UserInfo
  ResourceDescription :: ResourceDescription

record MatchResources = ResourceFilter +
  Any_list :: "ResourceFilter slice"
  All_list :: "ResourceFilter slice"

definition UserInfo_zero :: UserInfo where
  "UserInfo_zero = \<lparr>Roles = None, ClusterRoles = None, Subjects = None\<rparr>"

definition ResourceDescription_zero :: ResourceDescription where
  "ResourceDescription_zero = \<lparr>Kinds = None, Name = [], Names = None, Namespaces = None,
     Annotations = None, Selector = None, NamespaceSelector = None\<rparr>"

definition MatchResources_zero :: MatchResources where
  \<comment> \<open>the composite literal \<open>MatchResources{}\<close>\<close>
  "MatchResources_zero = \<lparr>UserInfo = UserInfo_zero, ResourceDescription = ResourceDescription_zero,
     Any_list = None, All_list = None\<rparr>"

text \<open>
  The rule. The types of the context entries, of the raw preconditions, of the three
  effect payloads and of an image verification are declared elsewhere: they are type
  parameters, and the zero value \<open>T{}\<close> of a payload type is \<open>default\<close>.
\<close>

record ('c, 'j, 'm, 'v, 'g, 'i) Rule =
  Rule_Name :: string
  Context :: "'c slice"
  MatchResources :: MatchResources
  ExcludeResources :: MatchResources
  RawAnyAllConditions :: "'j option"
  Mutation :: 'm
  Validation :: 'v
  Generation :: 'g
  VerifyImages :: "'i option slice"

section \<open>Field errors\<close>

type_synonym Path = "string list"

definition Child :: "Path \<Rightarrow> string \<Rightarrow> Path" where
  "Child path name = path @ [name]"

datatype ErrorType = ErrorTypeNotFound | ErrorTypeRequired | ErrorTypeDuplicate | ErrorTypeInvalid
  | ErrorTypeNotSupported | ErrorTypeForbidden | ErrorTypeTooLong | ErrorTypeTooMany | ErrorTypeInternal

text \<open>
  The bad value of a field error is an \<open>interface{}\<close>: the checks of the rule store the
  pointer to the rule there; the structural validation of a block, declared elsewhere,
  may store values of other types, kept here in printed form.
\<close>

datatype 'r interface = Rule_pointer 'r | Other_value string

record 'b Error =
  Error_Type :: ErrorType
  Error_Field :: Path
  BadValue :: 'b
  Detail :: string

type_synonym ('c, 'j, 'm, 'v, 'g, 'i) ErrorList =
  "('c, 'j, 'm, 'v, 'g, 'i) Rule interface Error list"

definition Invalid :: "Path \<Rightarrow> 'b \<Rightarrow> string \<Rightarrow> 'b Error" where
  "Invalid path v detail = \<lparr>Error_Type = ErrorTypeInvalid, Error_Field = path, BadValue = v, Detail = detail\<rparr>"

section \<open>Effect predicates and kind accessors\<close>

definition DeepEqual_distinct_types :: "'a \<Rightarrow> 'b \<Rightarrow> bool" where
  \<comment> \<open>\<open>reflect.DeepEqual\<close> on two values of distinct types: never deeply equal\<close>
  "DeepEqual_distinct_types x y = False"

definition HasMutate :: "('c, 'j, 'm::default, 'v, 'g, 'i) Rule \<Rightarrow> bool" where
  "HasMutate r = (\<not> (Mutation r = default))"

definition HasVerifyImages :: "('c, 'j, 'm, 'v, 'g, 'i::default) Rule \<Rightarrow> bool" where
  "HasVerifyImages r = (VerifyImages r \<noteq> None \<and> \<not> DeepEqual_distinct_types (VerifyImages r) (default :: 'i))"

definition HasValidate :: "('c, 'j, 'm, 'v::default, 'g, 'i) Rule \<Rightarrow> bool" where
  "HasValidate r = (\<not> (Validation r = default))"

definition HasGenerate :: "('c, 'j, 'm, 'v, 'g::default, 'i) Rule \<Rightarrow> bool" where
  "HasGenerate r = (\<not> (Generation r = default))"

definition MatchKinds :: "('c, 'j, 'm, 'v, 'g, 'i) Rule \<Rightarrow> string slice" where
  "MatchKinds r =
     (let matchKinds = Kinds (ResourceDescription (MatchResources r));
          matchKinds = foldl (\<lambda>acc v. append_slice acc (range_slice (Kinds (ResourceDescription v))))
                         matchKinds (range_slice (All_list (MatchResources r)));
          matchKinds = foldl (\<lambda>acc v. append_slice acc (range_slice (Kinds (ResourceDescription v))))
                         matchKinds (range_slice (Any_list (MatchResources r)))
      in matchKinds)"

definition ExcludeKinds :: "('c, 'j, 'm, 'v, 'g, 'i) Rule \<Rightarrow> string slice" where
  "ExcludeKinds r =
     (let excludeKinds = Kinds (ResourceDescription (ExcludeResources r));
          excludeKinds = foldl (\<lambda>acc v. append_slice acc (range_slice (Kinds (ResourceDescription v))))
                           excludeKinds (range_slice (All_list (ExcludeResources r)));
          excludeKinds = foldl (\<lambda>acc v. append_slice acc (range_slice (Kinds (ResourceDescription v))))
                           excludeKinds (range_slice (Any_list (ExcludeResources r)))
      in excludeKinds)"

section \<open>The operation-exclusivity check\<close>

definition no_operation_message :: "string \<Rightarrow> string" where
  "no_operation_message name =
     ''No operation defined in the rule '' @ [CHR 0x27] @ name @ [CHR 0x27]
       @ ''.(supported operations: mutate,validate,generate,verifyImages)''"

definition multiple_operations_message :: "string \<Rightarrow> string" where
  "multiple_operations_message name =
     ''Multiple operations defined in the rule '' @ [CHR 0x27] @ name @ [CHR 0x27]
       @ '', only one operation (mutate,validate,generate,verifyImages) is allowed per rule''"

definition ValidateRuleType ::
  "Path \<Rightarrow> ('c, 'j, 'm::default, 'v::default, 'g::default, 'i::default) Rule
     \<Rightarrow> ('c, 'j, 'm, 'v, 'g, 'i) ErrorList" where
  "ValidateRuleType path r =
     (let errs = [];
          ruleTypes = [HasMutate r, HasValidate r, HasGenerate r, HasVerifyImages r];
          count = foldl (\<lambda>count v. if v then count + 1 else count) (0::nat) ruleTypes
      in if count = 0 then errs @ [Invalid path (Rule_pointer r) (no_operation_message (Rule_Name r))]
         else if count \<noteq> 1 then errs @ [Invalid path (Rule_pointer r) (multiple_operations_message (Rule_Name r))]
         else errs)"

section \<open>Wildcard patterns\<close>

text \<open>
  Modelled from the spec: the wildcard matcher \<open>wildcard.Match pattern name\<close> of the
  library github.com/minio/pkg, which is not among the sources. The spec gives the
  syntax: \<open>*\<close> stands for any run of characters, \<open>?\<close> for exactly one character, any
  other character for itself; the empty pattern matches the empty name only.
\<close>

fun deepMatchRune :: "string \<Rightarrow> string \<Rightarrow> bool" where
  "deepMatchRune str [] = (str = [])"
| "deepMatchRune [] (p # ps) = (p = CHR ''*'' \<and> deepMatchRune [] ps)"
| "deepMatchRune (c # cs) (p # ps) =
     (if p = CHR ''*'' then deepMatchRune (c # cs) ps \<or> deepMatchRune cs (p # ps)
      else if p = CHR ''?'' then deepMatchRune cs ps
      else c = p \<and> deepMatchRune cs ps)"

definition wildcard_Match :: "string \<Rightarrow> string \<Rightarrow> bool" where
  "wildcard_Match pattern name =
     (if pattern = [] then name = pattern
      else if pattern = ''*'' then True
      else deepMatchRune name pattern)"

section \<open>The match/exclude conflict detector\<close>

definition empty_set_error :: "Path \<Rightarrow> 'r \<Rightarrow> 'r interface Error" where
  "empty_set_error path r = Invalid path (Rule_pointer r) ''Rule is matching an empty set''"

definition ValidateMathExcludeConflict ::
  "Path \<Rightarrow> ('c, 'j, 'm, 'v, 'g, 'i) Rule \<Rightarrow> ('c, 'j, 'm, 'v, 'g, 'i) ErrorList" where
  "ValidateMathExcludeConflict path r =
     (let errs = [];
          m = MatchResources r; e = ExcludeResources r;
          mu = UserInfo m; eu = UserInfo e;
          md = ResourceDescription m; ed = ResourceDescription e
      in
      if len (All_list e) > 0 \<or> len (All_list m) > 0 then errs
      else if len (Any_list m) > 0 \<and> len (Any_list e) > 0 then
        (if list_ex (\<lambda>rmr. list_ex (\<lambda>rer. rmr = rer) (range_slice (Any_list e)))
              (range_slice (Any_list m))
         then errs @ [empty_set_error path r]
         else errs)
      else if e = MatchResources_zero then errs
      else
      let excludeRoles = NewString (range_slice (Roles eu));
          excludeClusterRoles = NewString (range_slice (ClusterRoles eu));
          excludeKinds = NewString (range_slice (Kinds ed));
          excludeNamespaces = NewString (range_slice (Namespaces ed));
          excludeSubjects = NewString (map json_Marshal_Subject (range_slice (Subjects eu)));
          excludeSelectorMatchExpressions =
            (case Selector ed of None \<Rightarrow> NewString []
             | Some sel \<Rightarrow> NewString (map json_Marshal_Requirement (range_slice (MatchExpressions sel))));
          excludeNamespaceSelectorMatchExpressions =
            (case NamespaceSelector ed of None \<Rightarrow> NewString []
             | Some sel \<Rightarrow> NewString (map json_Marshal_Requirement (range_slice (MatchExpressions sel))))
      in
      if card excludeRoles > 0
         \<and> (len (Roles mu) = 0 \<or> \<not> HasAll excludeRoles (range_slice (Roles mu))) then errs
      else if card excludeClusterRoles > 0
         \<and> (len (ClusterRoles mu) = 0 \<or> \<not> HasAll excludeClusterRoles (range_slice (ClusterRoles mu))) then errs
      else if card excludeSubjects > 0
         \<and> (len (Subjects mu) = 0
              \<or> list_ex (\<lambda>subject. \<not> Has excludeSubjects (json_Marshal_Subject subject))
                   (range_slice (Subjects mu))) then errs
      else if Name ed \<noteq> [] \<and> \<not> wildcard_Match (Name ed) (Name md) then errs
      else if len (Names ed) > 0 then
        (let excludeSlice = range_slice (Names ed); matchSlice = range_slice (Names md) in
         if len (Names md) = 0 then errs
         else if list_ex (\<lambda>matchName. list_ex (\<lambda>excludeName. wildcard_Match excludeName matchName)
                   excludeSlice) matchSlice
         then errs @ [empty_set_error path r]
         else errs)
      else if card excludeNamespaces > 0
         \<and> (len (Namespaces md) = 0 \<or> \<not> HasAll excludeNamespaces (range_slice (Namespaces md))) then errs
      else if card excludeKinds > 0
         \<and> (len (Kinds md) = 0 \<or> \<not> HasAll excludeKinds (range_slice (Kinds md))) then errs
      else if (case (Selector md, Selector ed) of
                 (Some msel, Some esel) \<Rightarrow>
                   (card excludeSelectorMatchExpressions > 0
                      \<and> (len (MatchExpressions msel) = 0
                           \<or> list_ex (\<lambda>matchExpression.
                                  \<not> Has excludeSelectorMatchExpressions (json_Marshal_Requirement matchExpression))
                                (range_slice (MatchExpressions msel))))
                   \<or> (len_map (MatchLabels esel) > 0
                      \<and> (len_map (MatchLabels msel) = 0
                           \<or> (\<exists>(label, value) \<in> range_map (MatchLabels msel).
                                  index_map (MatchLabels esel) label \<noteq> value)))
               | _ \<Rightarrow> False) then errs
      else if (case (NamespaceSelector md, NamespaceSelector ed) of
                 (Some msel, Some esel) \<Rightarrow>
                   (card excludeNamespaceSelectorMatchExpressions > 0
                      \<and> (len (MatchExpressions msel) = 0
                           \<or> list_ex (\<lambda>matchExpression.
                                  \<not> Has excludeNamespaceSelectorMatchExpressions (json_Marshal_Requirement matchExpression))
                                (range_slice (MatchExpressions msel))))
                   \<or> (len_map (MatchLabels esel) > 0
                      \<and> (len_map (MatchLabels msel) = 0
                           \<or> (\<exists>(label, value) \<in> range_map (MatchLabels msel).
                                  index_map (MatchLabels esel) label \<noteq> value)))
               | _ \<Rightarrow> False) then errs
      else if (Selector md = None \<and> Selector ed \<noteq> None) \<or> (Selector md \<noteq> None \<and> Selector ed = None)
        then errs
      else if (NamespaceSelector md = None \<and> NamespaceSelector ed \<noteq> None)
              \<or> (NamespaceSelector md \<noteq> None \<and> NamespaceSelector ed = None) then errs
      else if Annotations md \<noteq> None \<and> Annotations ed \<noteq> None \<and> \<not> (Annotations md = Annotations ed)
        then errs
      else if (Annotations md = None \<and> Annotations ed \<noteq> None) \<or> (Annotations md \<noteq> None \<and> Annotations ed = None)
        then errs
      else errs @ [empty_set_error path r])"

section \<open>Validate\<close>

text \<open>
  The structural validation of a \<open>MatchResources\<close> block (\<open>MatchResources.Validate\<close>) is
  declared elsewhere: it is the parameter \<open>validate_resources\<close>, called with the block,
  the path of the block, \<open>namespaced\<close> and \<open>clusterResources\<close>.
\<close>

definition Validate ::
  "(MatchResources \<Rightarrow> Path \<Rightarrow> bool \<Rightarrow> string set \<Rightarrow> ('c, 'j, 'm, 'v, 'g, 'i) ErrorList)
     \<Rightarrow> ('c, 'j, 'm::default, 'v::default, 'g::default, 'i::default) Rule
     \<Rightarrow> Path \<Rightarrow> bool \<Rightarrow> string set \<Rightarrow> ('c, 'j, 'm, 'v, 'g, 'i) ErrorList" where
  "Validate validate_resources r path namespaced clusterResources =
     (let errs = [];
          errs = errs @ ValidateRuleType path r;
          errs = errs @ ValidateMathExcludeConflict path r;
          errs = errs @ validate_resources (MatchResources r) (Child path ''match'') namespaced clusterResources;
          errs = errs @ validate_resources (ExcludeResources r) (Child path ''exclude'') namespaced clusterResources
      in errs)"

section \<open>Concrete rules\<close>

text \<open>
  An effect payload for concrete rules: the zero value, or some configured payload.
  It instantiates the payload type parameters of a rule at concrete inputs.
\<close>

datatype payload = Unset | Configured string

instantiation payload :: default
begin

definition default_payload_def: "default = Unset"

instance ..

end

type_synonym rule = "(unit, unit, payload, payload, payload, payload) Rule"

definition filter_of_kinds :: "string list \<Rightarrow> ResourceFilter" where
  "filter_of_kinds ks = \<lparr>UserInfo = UserInfo_zero,
     ResourceDescription = ResourceDescription_zero\<lparr>Kinds := Some ks\<rparr>\<rparr>"

definition resources :: "ResourceDescription \<Rightarrow> MatchResources" where
  \<comment> \<open>a block with only its \<open>resources\<close> part set\<close>
  "resources d = MatchResources_zero\<lparr>ResourceDescription := d\<rparr>"

definition kinds_block :: "string list \<Rightarrow> MatchResources" where
  "kinds_block ks = resources (ResourceDescription_zero\<lparr>Kinds := Some ks\<rparr>)"

definition namespaces_block :: "string list \<Rightarrow> MatchResources" where
  "namespaces_block ns = resources (ResourceDescription_zero\<lparr>Namespaces := Some ns\<rparr>)"

definition names_block :: "string list \<Rightarrow> MatchResources" where
  "names_block ns = resources (ResourceDescription_zero\<lparr>Names := Some ns\<rparr>)"

definition selector_block :: "LabelSelector \<Rightarrow> MatchResources" where
  "selector_block sel = resources (ResourceDescription_zero\<lparr>Selector := Some sel\<rparr>)"

definition namespace_selector_block :: "LabelSelector \<Rightarrow> MatchResources" where
  "namespace_selector_block sel = resources (ResourceDescription_zero\<lparr>NamespaceSelector := Some sel\<rparr>)"

definition any_block :: "ResourceFilter list \<Rightarrow> MatchResources" where
  "any_block fs = MatchResources_zero\<lparr>Any_list := Some fs\<rparr>"

definition rule_of :: "MatchResources \<Rightarrow> MatchResources \<Rightarrow> rule" where
  \<comment> \<open>a rule with the given match and exclude blocks and a validation payload\<close>
  "rule_of m e = \<lparr>Rule_Name = ''r'', Context = None, MatchResources = m, ExcludeResources = e,
     RawAnyAllConditions = None, Mutation = Unset, Validation = Configured ''deny'',
     Generation = Unset, VerifyImages = None\<rparr>"

definition rule_all_and_equal_any :: rule where
  "rule_all_and_equal_any = rule_of
     ((any_block [filter_of_kinds [''Pod'']])\<lparr>All_list := Some [filter_of_kinds [''Pod'']]\<rparr>)
     (any_block [filter_of_kinds [''Pod'']])"

definition rule_pod_any_deployment :: rule where
  "rule_pod_any_deployment = rule_of
     ((kinds_block [''Pod''])\<lparr>Any_list := Some [filter_of_kinds [''Deployment'']]\<rparr>)
     MatchResources_zero"

definition rule_kinds_everywhere :: rule where
  "rule_kinds_everywhere = rule_of
     ((kinds_block [''A''])
        \<lparr>Any_list := Some [filter_of_kinds [''D''], filter_of_kinds [''E'']],
         All_list := Some [filter_of_kinds [''B'', ''C'']]\<rparr>)
     ((kinds_block [''X''])
        \<lparr>Any_list := Some [filter_of_kinds [''Z'']], All_list := Some [filter_of_kinds [''Y'']]\<rparr>)"

definition rule_pod_minus_pod :: rule where
  \<comment> \<open>\<open>match.kinds = ["Pod"]\<close>, \<open>exclude.kinds = ["Pod"]\<close>, nothing else set\<close>
  "rule_pod_minus_pod = rule_of (kinds_block [''Pod'']) (kinds_block [''Pod''])"

definition rule_no_operation :: rule where
  "rule_no_operation = rule_pod_minus_pod\<lparr>Validation := Unset\<rparr>"

definition reject_block :: "MatchResources \<Rightarrow> Path \<Rightarrow> bool \<Rightarrow> string set
    \<Rightarrow> (unit, unit, payload, payload, payload, payload) ErrorList" where
  \<comment> \<open>a structural validation that reports one error for every block\<close>
  "reject_block block path namespaced clusterResources = [Invalid path (Other_value ''block'') ''rejected'']"

definition rule_mutate_empty_verifyImages :: rule where
  \<comment> \<open>a mutation payload and \<open>verifyImages: []\<close>\<close>
  "rule_mutate_empty_verifyImages = (rule_of MatchResources_zero MatchResources_zero)
     \<lparr>Mutation := Configured ''patch'', Validation := Unset, VerifyImages := Some []\<rparr>"

definition rule_only_empty_verifyImages :: rule where
  \<comment> \<open>no payload and \<open>verifyImages: []\<close>\<close>
  "rule_only_empty_verifyImages = (rule_of MatchResources_zero MatchResources_zero)
     \<lparr>Validation := Unset, VerifyImages := Some []\<rparr>"

definition rule_exclude_empty_kinds :: rule where
  \<comment> \<open>\<open>match.kinds = ["Pod"]\<close> and an exclude block whose only content is \<open>kinds: []\<close>\<close>
  "rule_exclude_empty_kinds = rule_of (kinds_block [''Pod'']) (kinds_block [])"

definition rule_any_pod_deployment_minus_pod :: rule where
  \<comment> \<open>\<open>match.any\<close> selects pods or deployments, \<open>exclude.any\<close> selects pods\<close>
  "rule_any_pod_deployment_minus_pod = rule_of
     (any_block [filter_of_kinds [''Pod''], filter_of_kinds [''Deployment'']])
     (any_block [filter_of_kinds [''Pod'']])"

definition rule_any_pod_minus_deployment :: rule where
  "rule_any_pod_minus_deployment = rule_of
     (any_block [filter_of_kinds [''Pod'']])
     (any_block [filter_of_kinds [''Deployment'']])"

definition rule_names_partly_excluded :: rule where
  \<comment> \<open>\<open>match.names = ["pod-a", "web"]\<close>, \<open>exclude.names = ["pod-*"]\<close>\<close>
  "rule_names_partly_excluded = rule_of (names_block [''pod-a'', ''web'']) (names_block [''pod-*''])"

definition rule_names_star :: rule where
  \<comment> \<open>\<open>match.names = ["pod-a", "pod-b"]\<close>, \<open>exclude.names = ["*"]\<close>\<close>
  "rule_names_star = rule_of (names_block [''pod-a'', ''pod-b'']) (names_block [''*''])"

definition requirement_app :: LabelSelectorRequirement where
  "requirement_app = \<lparr>Key = ''app'', Operator = ''In'', Values = Some [''web'']\<rparr>"

definition requirement_tier :: LabelSelectorRequirement where
  "requirement_tier = \<lparr>Key = ''tier'', Operator = ''Exists'', Values = None\<rparr>"

definition expressions :: "LabelSelectorRequirement list \<Rightarrow> LabelSelector" where
  "expressions xs = \<lparr>MatchLabels = None, MatchExpressions = Some xs\<rparr>"

definition labels :: "(string \<times> string) list \<Rightarrow> LabelSelector" where
  "labels kvs = \<lparr>MatchLabels = Some (fmap_of_list kvs), MatchExpressions = None\<rparr>"

definition rule_selector_wider_exclude :: rule where
  \<comment> \<open>the match selector has one expression, the exclude selector has it and one more\<close>
  "rule_selector_wider_exclude = rule_of
     (selector_block (expressions [requirement_app]))
     (selector_block (expressions [requirement_app, requirement_tier]))"

definition rule_namespace_selector_wider_exclude :: rule where
  "rule_namespace_selector_wider_exclude = rule_of
     (namespace_selector_block (expressions [requirement_app]))
     (namespace_selector_block (expressions [requirement_app, requirement_tier]))"

definition rule_labels_wider_exclude :: rule where
  \<comment> \<open>the match selector has one label, the exclude selector has it and one more\<close>
  "rule_labels_wider_exclude = rule_of
     (selector_block (labels [(''app'', ''web'')]))
     (selector_block (labels [(''app'', ''web''), (''tier'', ''db'')]))"

definition rule_prod_staging_minus_prod :: rule where
  \<comment> \<open>\<open>match.namespaces = ["prod", "staging"]\<close>, \<open>exclude.namespaces = ["prod"]\<close>\<close>
  "rule_prod_staging_minus_prod = rule_of (namespaces_block [''prod'', ''staging'']) (namespaces_block [''prod''])"

definition rule_prod_minus_prod_staging :: rule where
  "rule_prod_minus_prod_staging = rule_of (namespaces_block [''prod'']) (namespaces_block [''prod'', ''staging''])"

definition rule_names_before_namespaces :: rule where
  \<comment> \<open>\<open>match\<close>: names ["pod-a"], namespaces ["prod", "staging"]; \<open>exclude\<close>: names ["pod-*"],
      namespaces ["prod"]\<close>
  "rule_names_before_namespaces = rule_of
     (resources (ResourceDescription_zero\<lparr>Names := Some [''pod-a''], Namespaces := Some [''prod'', ''staging'']\<rparr>))
     (resources (ResourceDescription_zero\<lparr>Names := Some [''pod-*''], Namespaces := Some [''prod'']\<rparr>))"

definition rule_any_before_kinds :: rule where
  \<comment> \<open>both \<open>any\<close> lists hold the same entry; \<open>match.kinds\<close> = ["Pod", "Service"],
      \<open>exclude.kinds\<close> = ["Pod"]\<close>
  "rule_any_before_kinds = rule_of
     ((kinds_block [''Pod'', ''Service''])\<lparr>Any_list := Some [filter_of_kinds [''Job'']]\<rparr>)
     ((kinds_block [''Pod''])\<lparr>Any_list := Some [filter_of_kinds [''Job'']]\<rparr>)"

section \<open>Basic facts\<close>

lemmas zero_defs = UserInfo_zero_def ResourceDescription_zero_def MatchResources_zero_def

lemmas block_defs = filter_of_kinds_def resources_def kinds_block_def namespaces_block_def
  names_block_def selector_block_def namespace_selector_block_def any_block_def

lemmas effect_defs = HasMutate_def HasValidate_def HasGenerate_def HasVerifyImages_def
  DeepEqual_distinct_types_def default_payload_def

lemmas detector_defs = ValidateMathExcludeConflict_def Let_def len_def range_slice_def len_map_def
  range_map_def index_map_def NewString_def Has_def HasAll_def empty_set_error_def

lemma card_set_pos: "0 < card (set xs) \<longleftrightarrow> xs \<noteq> []"
  by (simp add: card_gt_0_iff)

lemma len_pos: "0 < len s \<longleftrightarrow> range_slice s \<noteq> []"
  by (simp add: len_def range_slice_def split: option.splits)

lemma len_zero: "len s = 0 \<longleftrightarrow> range_slice s = []"
  by (simp add: len_def range_slice_def split: option.splits)

lemma range_foldl_append_slice:
  "range_slice (foldl (\<lambda>acc v. append_slice acc (f v)) s xs) = range_slice s @ concat (map f xs)"
  by (induction xs arbitrary: s) (auto simp: range_slice_def append_slice_def split: option.splits)

lemma HasVerifyImages_iff: "HasVerifyImages r \<longleftrightarrow> VerifyImages r \<noteq> None"
  by (simp add: HasVerifyImages_def DeepEqual_distinct_types_def)

lemma ValidateRuleType_cases:
  "ValidateRuleType path r =
     (if \<not> HasMutate r \<and> \<not> HasValidate r \<and> \<not> HasGenerate r \<and> \<not> HasVerifyImages r
      then [Invalid path (Rule_pointer r) (no_operation_message (Rule_Name r))]
      else if (HasMutate r \<and> \<not> HasValidate r \<and> \<not> HasGenerate r \<and> \<not> HasVerifyImages r)
            \<or> (\<not> HasMutate r \<and> HasValidate r \<and> \<not> HasGenerate r \<and> \<not> HasVerifyImages r)
            \<or> (\<not> HasMutate r \<and> \<not> HasValidate r \<and> HasGenerate r \<and> \<not> HasVerifyImages r)
            \<or> (\<not> HasMutate r \<and> \<not> HasValidate r \<and> \<not> HasGenerate r \<and> HasVerifyImages r)
      then []
      else [Invalid path (Rule_pointer r) (multiple_operations_message (Rule_Name r))])"
  by (simp add: ValidateRuleType_def Let_def)

lemma zero_exclude_no_conflict:
  "ExcludeResources r = MatchResources_zero \<Longrightarrow> ValidateMathExcludeConflict path r = []"
  by (simp add: ValidateMathExcludeConflict_def Let_def MatchResources_zero_def len_def)

section \<open>The operation-exclusivity check and the verify-images effect\<close>

text \<open>
  C6, evaluated at a rule with a mutation payload and a \<open>verifyImages\<close> list that is present
  but empty: exactly one of the four effect fields is non-empty (the mutation), yet the check
  returns one error, "Multiple operations defined". The second conjunct of \<open>HasVerifyImages\<close>
  compares the list with an \<open>ImageVerification\<close> struct, two values of distinct types, so it
  never holds back an empty list.
\<close>

theorem empty_verifyImages_counted_as_operation:
  "len (VerifyImages rule_mutate_empty_verifyImages) = 0
   \<and> HasMutate rule_mutate_empty_verifyImages
   \<and> \<not> HasValidate rule_mutate_empty_verifyImages
   \<and> \<not> HasGenerate rule_mutate_empty_verifyImages
   \<and> ValidateRuleType [''spec'', ''rules''] rule_mutate_empty_verifyImages =
       [Invalid [''spec'', ''rules''] (Rule_pointer rule_mutate_empty_verifyImages)
          (multiple_operations_message ''r'')]"
  by (simp add: ValidateRuleType_cases effect_defs rule_mutate_empty_verifyImages_def rule_of_def len_def)

text \<open>
  C10: the verify-images effect counts as declared exactly when the \<open>verifyImages\<close> list is
  not nil, also when the list is present and empty. So a rule with a present, empty list and
  another effect gets the "multiple operations" error, and a rule with a present, empty list
  and no other effect gets no error.
\<close>

theorem verifyImages_declared_iff_not_nil:
  "(HasVerifyImages r \<longleftrightarrow> VerifyImages r \<noteq> None)
   \<and> (VerifyImages r = Some [] \<and> (HasMutate r \<or> HasValidate r \<or> HasGenerate r) \<longrightarrow>
        ValidateRuleType path r = [Invalid path (Rule_pointer r) (multiple_operations_message (Rule_Name r))])
   \<and> (VerifyImages r = Some [] \<and> \<not> HasMutate r \<and> \<not> HasValidate r \<and> \<not> HasGenerate r \<longrightarrow>
        ValidateRuleType path r = [])"
  by (auto simp add: ValidateRuleType_cases HasVerifyImages_iff)

theorem verifyImages_declared_iff_not_nil_witness:
  "HasVerifyImages rule_only_empty_verifyImages
   \<and> VerifyImages rule_only_empty_verifyImages = Some []
   \<and> ValidateRuleType [''spec''] rule_only_empty_verifyImages = []
   \<and> VerifyImages (rule_only_empty_verifyImages\<lparr>Generation := Configured ''clone''\<rparr>) = Some []
   \<and> HasGenerate (rule_only_empty_verifyImages\<lparr>Generation := Configured ''clone''\<rparr>)
   \<and> ValidateRuleType [''spec''] (rule_only_empty_verifyImages\<lparr>Generation := Configured ''clone''\<rparr>) =
       [Invalid [''spec''] (Rule_pointer (rule_only_empty_verifyImages\<lparr>Generation := Configured ''clone''\<rparr>))
          (multiple_operations_message ''r'')]"
proof -
  have a: "VerifyImages rule_only_empty_verifyImages = Some []"
    and b: "\<not> HasMutate rule_only_empty_verifyImages \<and> \<not> HasValidate rule_only_empty_verifyImages
        \<and> \<not> HasGenerate rule_only_empty_verifyImages"
    and c: "VerifyImages (rule_only_empty_verifyImages\<lparr>Generation := Configured ''clone''\<rparr>) = Some []"
    and d: "HasGenerate (rule_only_empty_verifyImages\<lparr>Generation := Configured ''clone''\<rparr>)"
    and n: "Rule_Name (rule_only_empty_verifyImages\<lparr>Generation := Configured ''clone''\<rparr>) = ''r''"
    by (simp_all add: rule_only_empty_verifyImages_def rule_of_def effect_defs)
  from verifyImages_declared_iff_not_nil [of rule_only_empty_verifyImages "[''spec'']"]
    verifyImages_declared_iff_not_nil [of "rule_only_empty_verifyImages\<lparr>Generation := Configured ''clone''\<rparr>" "[''spec'']"]
    a b c d n
  show ?thesis by simp
qed

section \<open>The kind accessors\<close>

text \<open>
  C9: \<open>MatchKinds\<close> returns the direct kinds of the match block, then the kinds of each entry
  of \<open>all\<close> in list order, then the kinds of each entry of \<open>any\<close> in list order, and
  \<open>ExcludeKinds\<close> does the same on the exclude block. On
  match = {kinds: ["Pod"], any: [{kinds: ["Deployment"]}]} the result is ["Pod", "Deployment"].
\<close>

theorem kinds_concatenation:
  "range_slice (MatchKinds r) =
     range_slice (Kinds (ResourceDescription (MatchResources r)))
     @ concat (map (\<lambda>v. range_slice (Kinds (ResourceDescription v))) (range_slice (All_list (MatchResources r))))
     @ concat (map (\<lambda>v. range_slice (Kinds (ResourceDescription v))) (range_slice (Any_list (MatchResources r))))
   \<and> range_slice (ExcludeKinds r) =
     range_slice (Kinds (ResourceDescription (ExcludeResources r)))
     @ concat (map (\<lambda>v. range_slice (Kinds (ResourceDescription v))) (range_slice (All_list (ExcludeResources r))))
     @ concat (map (\<lambda>v. range_slice (Kinds (ResourceDescription v))) (range_slice (Any_list (ExcludeResources r))))
   \<and> MatchKinds rule_pod_any_deployment = Some [''Pod'', ''Deployment'']"
proof (intro conjI)
  show "MatchKinds rule_pod_any_deployment = Some [''Pod'', ''Deployment'']"
    by (simp add: MatchKinds_def rule_pod_any_deployment_def rule_of_def block_defs zero_defs
          range_slice_def append_slice_def)
qed (simp_all add: MatchKinds_def ExcludeKinds_def Let_def range_foldl_append_slice)

theorem kinds_concatenation_witness:
  "range_slice (MatchKinds rule_kinds_everywhere) = [''A'', ''B'', ''C'', ''D'', ''E'']
   \<and> range_slice (ExcludeKinds rule_kinds_everywhere) = [''X'', ''Y'', ''Z'']"
proof -
  have m: "MatchResources rule_kinds_everywhere =
      (kinds_block [''A''])
        \<lparr>Any_list := Some [filter_of_kinds [''D''], filter_of_kinds [''E'']],
         All_list := Some [filter_of_kinds [''B'', ''C'']]\<rparr>"
    and e: "ExcludeResources rule_kinds_everywhere =
      (kinds_block [''X''])
        \<lparr>Any_list := Some [filter_of_kinds [''Z'']], All_list := Some [filter_of_kinds [''Y'']]\<rparr>"
    by (simp_all add: rule_kinds_everywhere_def rule_of_def)
  from kinds_concatenation [of rule_kinds_everywhere] show ?thesis
    unfolding m e by (simp add: block_defs zero_defs range_slice_def)
qed

section \<open>Validate\<close>

text \<open>
  C8: for every rule and path, \<open>Validate\<close> returns the errors of the operation check, then
  those of the conflict detector, then the structural errors of \<open>match\<close>, then the structural
  errors of \<open>exclude\<close>, concatenated in this order; no phase is skipped because of the result
  of another, so the number of errors is the sum of the four.
\<close>

theorem validate_concatenates_four_phases:
  "Validate validate_resources r path namespaced clusterResources =
     ValidateRuleType path r
     @ ValidateMathExcludeConflict path r
     @ validate_resources (MatchResources r) (Child path ''match'') namespaced clusterResources
     @ validate_resources (ExcludeResources r) (Child path ''exclude'') namespaced clusterResources
   \<and> length (Validate validate_resources r path namespaced clusterResources) =
     length (ValidateRuleType path r)
     + length (ValidateMathExcludeConflict path r)
     + length (validate_resources (MatchResources r) (Child path ''match'') namespaced clusterResources)
     + length (validate_resources (ExcludeResources r) (Child path ''exclude'') namespaced clusterResources)"
  by (simp add: Validate_def Let_def)

theorem validate_concatenates_four_phases_witness:
  "Validate reject_block rule_no_operation [''rule''] True {} =
     [Invalid [''rule''] (Rule_pointer rule_no_operation) (no_operation_message ''r''),
      Invalid [''rule''] (Rule_pointer rule_no_operation) ''Rule is matching an empty set'',
      Invalid [''rule'', ''match''] (Other_value ''block'') ''rejected'',
      Invalid [''rule'', ''exclude''] (Other_value ''block'') ''rejected'']"
proof -
  have ops: "ValidateRuleType [''rule''] rule_no_operation =
      [Invalid [''rule''] (Rule_pointer rule_no_operation) (no_operation_message ''r'')]"
    by (simp add: ValidateRuleType_cases effect_defs rule_no_operation_def rule_pod_minus_pod_def rule_of_def)
  have m: "MatchResources rule_no_operation = kinds_block [''Pod'']"
    and e: "ExcludeResources rule_no_operation = kinds_block [''Pod'']"
    by (simp_all add: rule_no_operation_def rule_pod_minus_pod_def rule_of_def)
  have conflict: "ValidateMathExcludeConflict [''rule''] rule_no_operation =
      [Invalid [''rule''] (Rule_pointer rule_no_operation) ''Rule is matching an empty set'']"
    unfolding detector_defs m e by (simp add: block_defs zero_defs)
  from validate_concatenates_four_phases [of reject_block rule_no_operation "[''rule'']" True "{}"]
  show ?thesis
    by (simp add: ops conflict reject_block_def Child_def)
qed

section \<open>The conflict detector: the guards on \<open>all\<close> and on an empty exclude block\<close>

lemma rule_of_blocks [simp]:
  "MatchResources (rule_of m e) = m" "ExcludeResources (rule_of m e) = e"
  by (simp_all add: rule_of_def)

lemma not_zero_if_names:
  "len (Names (ResourceDescription e)) > 0 \<Longrightarrow> e \<noteq> MatchResources_zero"
  by (auto simp add: zero_defs len_def)

text \<open>
  C5: if \<open>match.all\<close> is non-empty or \<open>exclude.all\<close> is non-empty, the conflict detector
  returns no error, whatever the other fields hold.
\<close>

theorem all_list_no_conflict:
  "len (All_list (MatchResources r)) > 0 \<or> len (All_list (ExcludeResources r)) > 0
     \<Longrightarrow> ValidateMathExcludeConflict path r = []"
proof -
  assume "len (All_list (MatchResources r)) > 0 \<or> len (All_list (ExcludeResources r)) > 0"
  then have guard: "(len (All_list (ExcludeResources r)) > 0 \<or> len (All_list (MatchResources r)) > 0) = True"
    by auto
  show ?thesis
    unfolding ValidateMathExcludeConflict_def Let_def
    by (simp only: guard if_True)
qed

theorem all_list_no_conflict_witness:
  "len (All_list (MatchResources rule_all_and_equal_any)) > 0
   \<and> Any_list (MatchResources rule_all_and_equal_any) = Any_list (ExcludeResources rule_all_and_equal_any)
   \<and> ValidateMathExcludeConflict [''spec'', ''rules''] rule_all_and_equal_any = []"
proof -
  have h: "len (All_list (MatchResources rule_all_and_equal_any)) > 0"
    and a: "Any_list (MatchResources rule_all_and_equal_any) = Any_list (ExcludeResources rule_all_and_equal_any)"
    by (simp_all add: rule_all_and_equal_any_def block_defs len_def)
  from h have "len (All_list (MatchResources rule_all_and_equal_any)) > 0
      \<or> len (All_list (ExcludeResources rule_all_and_equal_any)) > 0" ..
  from all_list_no_conflict [OF this] h a show ?thesis by blast
qed

text \<open>
  C4, evaluated at a rule whose exclude block has every field empty or nil, its only content
  being a \<open>kinds\<close> list that is present and empty: the detector reports "Rule is matching an
  empty set". The guard compares the exclude block with the zero value by
  \<open>reflect.DeepEqual\<close>, which tells a present, empty list from nil; every later check takes
  the empty list for an unset dimension, so the run ends at the final error.
\<close>

theorem present_empty_exclude_reported_as_conflict:
  "ExcludeResources rule_exclude_empty_kinds
     = MatchResources_zero\<lparr>ResourceDescription := ResourceDescription_zero\<lparr>Kinds := Some []\<rparr>\<rparr>
   \<and> len (Kinds (ResourceDescription (ExcludeResources rule_exclude_empty_kinds))) = 0
   \<and> ValidateMathExcludeConflict [''spec'', ''rules''] rule_exclude_empty_kinds
     = [empty_set_error [''spec'', ''rules''] rule_exclude_empty_kinds]"
proof -
  have m: "MatchResources rule_exclude_empty_kinds = kinds_block [''Pod'']"
    and e: "ExcludeResources rule_exclude_empty_kinds = kinds_block []"
    by (simp_all add: rule_exclude_empty_kinds_def)
  have "ValidateMathExcludeConflict [''spec'', ''rules''] rule_exclude_empty_kinds
     = [empty_set_error [''spec'', ''rules''] rule_exclude_empty_kinds]"
    unfolding detector_defs m e by (simp add: block_defs zero_defs)
  then show ?thesis
    by (simp add: e block_defs len_def)
qed

section \<open>The conflict detector: two \<open>any\<close> lists\<close>

text \<open>
  C1 as stated fails: with \<open>match.any\<close> = [pods, deployments] and \<open>exclude.any\<close> = [pods],
  the deployments entry has no identical entry in \<open>exclude.any\<close>, and the detector still
  returns the "empty set" error.
\<close>

theorem any_lists_one_common_entry_counterexample:
  "len (All_list (MatchResources rule_any_pod_deployment_minus_pod)) = 0
   \<and> len (All_list (ExcludeResources rule_any_pod_deployment_minus_pod)) = 0
   \<and> len (Any_list (MatchResources rule_any_pod_deployment_minus_pod)) > 0
   \<and> len (Any_list (ExcludeResources rule_any_pod_deployment_minus_pod)) > 0
   \<and> filter_of_kinds [''Deployment''] \<in> set (range_slice (Any_list (MatchResources rule_any_pod_deployment_minus_pod)))
   \<and> filter_of_kinds [''Deployment''] \<notin> set (range_slice (Any_list (ExcludeResources rule_any_pod_deployment_minus_pod)))
   \<and> ValidateMathExcludeConflict [''spec'', ''rules''] rule_any_pod_deployment_minus_pod
     = [empty_set_error [''spec'', ''rules''] rule_any_pod_deployment_minus_pod]"
proof -
  have m: "MatchResources rule_any_pod_deployment_minus_pod
      = any_block [filter_of_kinds [''Pod''], filter_of_kinds [''Deployment'']]"
    and e: "ExcludeResources rule_any_pod_deployment_minus_pod = any_block [filter_of_kinds [''Pod'']]"
    by (simp_all add: rule_any_pod_deployment_minus_pod_def)
  have "ValidateMathExcludeConflict [''spec'', ''rules''] rule_any_pod_deployment_minus_pod
     = [empty_set_error [''spec'', ''rules''] rule_any_pod_deployment_minus_pod]"
    unfolding detector_defs m e by (simp add: block_defs zero_defs)
  then show ?thesis
    by (simp add: m e block_defs zero_defs len_def range_slice_def)
qed

text \<open>
  C1, amended: when no \<open>all\<close> list is populated and both \<open>match.any\<close> and \<open>exclude.any\<close> are
  non-empty, the detector returns the single "empty set" error if and only if at least one
  entry of \<open>match.any\<close> is structurally identical to some entry of \<open>exclude.any\<close>;
  otherwise it returns no error.
\<close>

theorem any_lists_conflict_iff_common_entry:
  assumes "len (All_list (MatchResources r)) = 0" and "len (All_list (ExcludeResources r)) = 0"
    and "len (Any_list (MatchResources r)) > 0" and "len (Any_list (ExcludeResources r)) > 0"
  shows "ValidateMathExcludeConflict path r =
     (if \<exists>rmr \<in> set (range_slice (Any_list (MatchResources r))).
           \<exists>rer \<in> set (range_slice (Any_list (ExcludeResources r))). rmr = rer
      then [empty_set_error path r] else [])"
proof -
  have g1: "(len (All_list (ExcludeResources r)) > 0 \<or> len (All_list (MatchResources r)) > 0) = False"
    using assms(1,2) by simp
  have g2: "(len (Any_list (MatchResources r)) > 0 \<and> len (Any_list (ExcludeResources r)) > 0) = True"
    using assms(3,4) by simp
  show ?thesis
    unfolding ValidateMathExcludeConflict_def Let_def
    by (simp only: g1 g2 if_True if_False list_ex_iff append_Nil)
qed

theorem any_lists_conflict_iff_common_entry_witness:
  "len (All_list (MatchResources rule_any_pod_minus_deployment)) = 0
   \<and> len (All_list (ExcludeResources rule_any_pod_minus_deployment)) = 0
   \<and> len (Any_list (MatchResources rule_any_pod_minus_deployment)) > 0
   \<and> len (Any_list (ExcludeResources rule_any_pod_minus_deployment)) > 0
   \<and> ValidateMathExcludeConflict [''spec'', ''rules''] rule_any_pod_minus_deployment = []"
proof -
  have m: "MatchResources rule_any_pod_minus_deployment = any_block [filter_of_kinds [''Pod'']]"
    and e: "ExcludeResources rule_any_pod_minus_deployment = any_block [filter_of_kinds [''Deployment'']]"
    by (simp_all add: rule_any_pod_minus_deployment_def)
  have h: "len (All_list (MatchResources rule_any_pod_minus_deployment)) = 0"
      "len (All_list (ExcludeResources rule_any_pod_minus_deployment)) = 0"
      "len (Any_list (MatchResources rule_any_pod_minus_deployment)) > 0"
      "len (Any_list (ExcludeResources rule_any_pod_minus_deployment)) > 0"
    by (simp_all add: m e block_defs zero_defs len_def)
  from any_lists_conflict_iff_common_entry [OF h, of "[''spec'', ''rules'']"] h
  show ?thesis
    by (simp add: m e block_defs zero_defs range_slice_def)
qed

section \<open>The conflict detector: the names dimension\<close>

lemma HasAll_subset: "HasAll (NewString ys) xs \<longleftrightarrow> set xs \<subseteq> set ys"
  by (auto simp add: HasAll_def NewString_def Has_def list_all_iff)

lemma card_NewString_pos: "0 < card (NewString xs) \<longleftrightarrow> xs \<noteq> []"
  by (simp add: NewString_def card_set_pos)

lemma list_ex_not_Has:
  "list_ex (\<lambda>x. \<not> Has (NewString (map f ys)) (f x)) xs \<longleftrightarrow> \<not> f ` set xs \<subseteq> f ` set ys"
  by (auto simp add: list_ex_iff NewString_def Has_def)

text \<open>
  C2 as stated fails: with \<open>exclude.names\<close> = ["pod-*"] and \<open>match.names\<close> = ["pod-a", "web"],
  no exclude pattern matches "web", and the detector still returns the "empty set" error.
\<close>

theorem names_one_match_counterexample:
  "len (Names (ResourceDescription (ExcludeResources rule_names_partly_excluded))) > 0
   \<and> ''web'' \<in> set (range_slice (Names (ResourceDescription (MatchResources rule_names_partly_excluded))))
   \<and> \<not> list_ex (\<lambda>excludeName. wildcard_Match excludeName ''web'')
         (range_slice (Names (ResourceDescription (ExcludeResources rule_names_partly_excluded))))
   \<and> ValidateMathExcludeConflict [''spec'', ''rules''] rule_names_partly_excluded
     = [empty_set_error [''spec'', ''rules''] rule_names_partly_excluded]"
proof -
  have m: "MatchResources rule_names_partly_excluded = names_block [''pod-a'', ''web'']"
    and e: "ExcludeResources rule_names_partly_excluded = names_block [''pod-*'']"
    by (simp_all add: rule_names_partly_excluded_def)
  have "ValidateMathExcludeConflict [''spec'', ''rules''] rule_names_partly_excluded
     = [empty_set_error [''spec'', ''rules''] rule_names_partly_excluded]"
    unfolding detector_defs m e by (simp add: block_defs zero_defs wildcard_Match_def)
  then show ?thesis
    by (simp add: m e block_defs zero_defs len_def range_slice_def wildcard_Match_def)
qed

text \<open>
  C2, amended: when \<open>exclude.names\<close> is non-empty (no \<open>all\<close> list populated, the two \<open>any\<close>
  lists not both populated), the detector returns the "empty set" error exactly when the
  earlier dimensions (roles, cluster roles, subjects, the single name) did not already decide
  for no conflict, \<open>match.names\<close> is non-empty, and at least one match-side name is matched by
  at least one exclude-side wildcard pattern; otherwise it returns no error. The result is
  fixed by these dimensions alone: namespaces, kinds, selectors and annotations are not
  looked at.
\<close>

theorem names_decide:
  assumes "len (All_list (MatchResources r)) = 0" and "len (All_list (ExcludeResources r)) = 0"
    and "len (Any_list (MatchResources r)) = 0 \<or> len (Any_list (ExcludeResources r)) = 0"
    and "len (Names (ResourceDescription (ExcludeResources r))) > 0"
  shows "ValidateMathExcludeConflict path r =
     (if (len (Roles (UserInfo (ExcludeResources r))) > 0 \<longrightarrow>
            len (Roles (UserInfo (MatchResources r))) > 0
            \<and> set (range_slice (Roles (UserInfo (MatchResources r))))
                \<subseteq> set (range_slice (Roles (UserInfo (ExcludeResources r)))))
       \<and> (len (ClusterRoles (UserInfo (ExcludeResources r))) > 0 \<longrightarrow>
            len (ClusterRoles (UserInfo (MatchResources r))) > 0
            \<and> set (range_slice (ClusterRoles (UserInfo (MatchResources r))))
                \<subseteq> set (range_slice (ClusterRoles (UserInfo (ExcludeResources r)))))
       \<and> (len (Subjects (UserInfo (ExcludeResources r))) > 0 \<longrightarrow>
            len (Subjects (UserInfo (MatchResources r))) > 0
            \<and> json_Marshal_Subject ` set (range_slice (Subjects (UserInfo (MatchResources r))))
                \<subseteq> json_Marshal_Subject ` set (range_slice (Subjects (UserInfo (ExcludeResources r)))))
       \<and> (Name (ResourceDescription (ExcludeResources r)) \<noteq> [] \<longrightarrow>
            wildcard_Match (Name (ResourceDescription (ExcludeResources r)))
              (Name (ResourceDescription (MatchResources r))))
       \<and> len (Names (ResourceDescription (MatchResources r))) > 0
       \<and> (\<exists>matchName \<in> set (range_slice (Names (ResourceDescription (MatchResources r)))).
            \<exists>excludeName \<in> set (range_slice (Names (ResourceDescription (ExcludeResources r)))).
              wildcard_Match excludeName matchName)
      then [empty_set_error path r] else [])"
proof -
  have g1: "(len (All_list (ExcludeResources r)) > 0 \<or> len (All_list (MatchResources r)) > 0) = False"
    using assms(1,2) by simp
  have g2: "(len (Any_list (MatchResources r)) > 0 \<and> len (Any_list (ExcludeResources r)) > 0) = False"
    using assms(3) by auto
  have g3: "(ExcludeResources r = MatchResources_zero) = False"
    using not_zero_if_names [OF assms(4)] by simp
  have g4: "(len (Names (ResourceDescription (ExcludeResources r))) > 0) = True"
    using assms(4) by simp
  have chain: "ValidateMathExcludeConflict path r =
     (if card (NewString (range_slice (Roles (UserInfo (ExcludeResources r))))) > 0
         \<and> (len (Roles (UserInfo (MatchResources r))) = 0
            \<or> \<not> HasAll (NewString (range_slice (Roles (UserInfo (ExcludeResources r)))))
                 (range_slice (Roles (UserInfo (MatchResources r))))) then []
      else if card (NewString (range_slice (ClusterRoles (UserInfo (ExcludeResources r))))) > 0
         \<and> (len (ClusterRoles (UserInfo (MatchResources r))) = 0
            \<or> \<not> HasAll (NewString (range_slice (ClusterRoles (UserInfo (ExcludeResources r)))))
                 (range_slice (ClusterRoles (UserInfo (MatchResources r))))) then []
      else if card (NewString (map json_Marshal_Subject (range_slice (Subjects (UserInfo (ExcludeResources r)))))) > 0
         \<and> (len (Subjects (UserInfo (MatchResources r))) = 0
            \<or> list_ex (\<lambda>subject. \<not> Has (NewString (map json_Marshal_Subject
                           (range_slice (Subjects (UserInfo (ExcludeResources r))))))
                        (json_Marshal_Subject subject))
                 (range_slice (Subjects (UserInfo (MatchResources r))))) then []
      else if Name (ResourceDescription (ExcludeResources r)) \<noteq> []
         \<and> \<not> wildcard_Match (Name (ResourceDescription (ExcludeResources r)))
               (Name (ResourceDescription (MatchResources r))) then []
      else if len (Names (ResourceDescription (MatchResources r))) = 0 then []
      else if list_ex (\<lambda>matchName. list_ex (\<lambda>excludeName. wildcard_Match excludeName matchName)
                  (range_slice (Names (ResourceDescription (ExcludeResources r)))))
                (range_slice (Names (ResourceDescription (MatchResources r))))
      then [] @ [empty_set_error path r] else [])"
    unfolding ValidateMathExcludeConflict_def Let_def
    by (simp only: g1 g2 g3 g4 if_True if_False)
  show ?thesis
    unfolding chain
    by (auto simp add: HasAll_subset card_NewString_pos list_ex_not_Has len_pos len_zero list_ex_iff)
qed

theorem names_decide_witness:
  "len (All_list (MatchResources rule_names_star)) = 0
   \<and> len (All_list (ExcludeResources rule_names_star)) = 0
   \<and> len (Any_list (MatchResources rule_names_star)) = 0
   \<and> len (Names (ResourceDescription (ExcludeResources rule_names_star))) > 0
   \<and> ValidateMathExcludeConflict [''spec'', ''rules''] rule_names_star
     = [empty_set_error [''spec'', ''rules''] rule_names_star]"
proof -
  have m: "MatchResources rule_names_star = names_block [''pod-a'', ''pod-b'']"
    and e: "ExcludeResources rule_names_star = names_block [''*'']"
    by (simp_all add: rule_names_star_def)
  have h: "len (All_list (MatchResources rule_names_star)) = 0"
      "len (All_list (ExcludeResources rule_names_star)) = 0"
      "len (Any_list (MatchResources rule_names_star)) = 0"
      "len (Names (ResourceDescription (ExcludeResources rule_names_star))) > 0"
    by (simp_all add: m e block_defs zero_defs len_def)
  from h(3) have h3: "len (Any_list (MatchResources rule_names_star)) = 0
      \<or> len (Any_list (ExcludeResources rule_names_star)) = 0" ..
  from names_decide [OF h(1) h(2) h3 h(4), of "[''spec'', ''rules'']"] h
  show ?thesis
    by (auto simp add: m e block_defs zero_defs len_def range_slice_def wildcard_Match_def)
qed

section \<open>The conflict detector: namespaces and kinds\<close>

lemma namespaces_not_contained_no_conflict:
  assumes "len (Any_list (MatchResources r)) = 0 \<or> len (Any_list (ExcludeResources r)) = 0"
    and "len (Names (ResourceDescription (ExcludeResources r))) = 0"
    and "len (Namespaces (ResourceDescription (ExcludeResources r))) > 0"
    and "len (Namespaces (ResourceDescription (MatchResources r))) = 0
         \<or> \<not> set (range_slice (Namespaces (ResourceDescription (MatchResources r))))
               \<subseteq> set (range_slice (Namespaces (ResourceDescription (ExcludeResources r))))"
  shows "ValidateMathExcludeConflict path r = []"
proof -
  have a: "(0 < len (Any_list (MatchResources r)) \<and> 0 < len (Any_list (ExcludeResources r))) = False"
    using assms(1) by auto
  have b: "(0 < len (Names (ResourceDescription (ExcludeResources r)))) = False"
    using assms(2) by simp
  have c: "(0 < card (NewString (range_slice (Namespaces (ResourceDescription (ExcludeResources r)))))
      \<and> (len (Namespaces (ResourceDescription (MatchResources r))) = 0
         \<or> \<not> HasAll (NewString (range_slice (Namespaces (ResourceDescription (ExcludeResources r)))))
              (range_slice (Namespaces (ResourceDescription (MatchResources r)))))) = True"
    using assms(3,4) by (simp add: HasAll_subset card_NewString_pos len_pos)
  show ?thesis
    unfolding ValidateMathExcludeConflict_def Let_def
    by (simp only: a b c if_True if_False if_cancel)
qed

lemma kinds_not_contained_no_conflict:
  assumes "len (Any_list (MatchResources r)) = 0 \<or> len (Any_list (ExcludeResources r)) = 0"
    and "len (Names (ResourceDescription (ExcludeResources r))) = 0"
    and "len (Kinds (ResourceDescription (ExcludeResources r))) > 0"
    and "len (Kinds (ResourceDescription (MatchResources r))) = 0
         \<or> \<not> set (range_slice (Kinds (ResourceDescription (MatchResources r))))
               \<subseteq> set (range_slice (Kinds (ResourceDescription (ExcludeResources r))))"
  shows "ValidateMathExcludeConflict path r = []"
proof -
  have a: "(0 < len (Any_list (MatchResources r)) \<and> 0 < len (Any_list (ExcludeResources r))) = False"
    using assms(1) by auto
  have b: "(0 < len (Names (ResourceDescription (ExcludeResources r)))) = False"
    using assms(2) by simp
  have c: "(0 < card (NewString (range_slice (Kinds (ResourceDescription (ExcludeResources r)))))
      \<and> (len (Kinds (ResourceDescription (MatchResources r))) = 0
         \<or> \<not> HasAll (NewString (range_slice (Kinds (ResourceDescription (ExcludeResources r)))))
              (range_slice (Kinds (ResourceDescription (MatchResources r)))))) = True"
    using assms(3,4) by (simp add: HasAll_subset card_NewString_pos len_pos)
  show ?thesis
    unfolding ValidateMathExcludeConflict_def Let_def
    by (simp only: a b c if_True if_False if_cancel)
qed

text \<open>
  C7 as stated fails: the namespaces and kinds dimensions are looked at only when no earlier
  step has decided. With \<open>exclude.namespaces\<close> = ["prod"] and \<open>match.namespaces\<close> =
  ["prod", "staging"], and in addition \<open>exclude.names\<close> = ["pod-*"] and \<open>match.names\<close> =
  ["pod-a"], the names dimension returns the "empty set" error before the namespaces are
  compared. With \<open>exclude.kinds\<close> = ["Pod"] and \<open>match.kinds\<close> = ["Pod", "Service"], and the
  same entry in both \<open>any\<close> lists, the comparison of the \<open>any\<close> lists returns the error
  before the kinds are compared.
\<close>

theorem namespaces_decided_earlier_counterexample:
  "range_slice (Namespaces (ResourceDescription (ExcludeResources rule_names_before_namespaces))) = [''prod'']
   \<and> range_slice (Namespaces (ResourceDescription (MatchResources rule_names_before_namespaces)))
       = [''prod'', ''staging'']
   \<and> ''staging'' \<notin> set (range_slice (Namespaces (ResourceDescription (ExcludeResources rule_names_before_namespaces))))
   \<and> ValidateMathExcludeConflict [''spec''] rule_names_before_namespaces
       = [empty_set_error [''spec''] rule_names_before_namespaces]
   \<and> range_slice (Kinds (ResourceDescription (ExcludeResources rule_any_before_kinds))) = [''Pod'']
   \<and> range_slice (Kinds (ResourceDescription (MatchResources rule_any_before_kinds))) = [''Pod'', ''Service'']
   \<and> ''Service'' \<notin> set (range_slice (Kinds (ResourceDescription (ExcludeResources rule_any_before_kinds))))
   \<and> ValidateMathExcludeConflict [''spec''] rule_any_before_kinds
       = [empty_set_error [''spec''] rule_any_before_kinds]"
proof -
  have m1: "MatchResources rule_names_before_namespaces =
      resources (ResourceDescription_zero\<lparr>Names := Some [''pod-a''], Namespaces := Some [''prod'', ''staging'']\<rparr>)"
    and e1: "ExcludeResources rule_names_before_namespaces =
      resources (ResourceDescription_zero\<lparr>Names := Some [''pod-*''], Namespaces := Some [''prod'']\<rparr>)"
    by (simp_all add: rule_names_before_namespaces_def)
  have r1: "ValidateMathExcludeConflict [''spec''] rule_names_before_namespaces
       = [empty_set_error [''spec''] rule_names_before_namespaces]"
    unfolding detector_defs m1 e1 by (simp add: block_defs zero_defs wildcard_Match_def)
  have m2: "MatchResources rule_any_before_kinds =
      (kinds_block [''Pod'', ''Service''])\<lparr>Any_list := Some [filter_of_kinds [''Job'']]\<rparr>"
    and e2: "ExcludeResources rule_any_before_kinds =
      (kinds_block [''Pod''])\<lparr>Any_list := Some [filter_of_kinds [''Job'']]\<rparr>"
    by (simp_all add: rule_any_before_kinds_def)
  have r2: "ValidateMathExcludeConflict [''spec''] rule_any_before_kinds
       = [empty_set_error [''spec''] rule_any_before_kinds]"
    unfolding detector_defs m2 e2 by (simp add: block_defs zero_defs)
  show ?thesis
    unfolding r1 r2 m1 e1 m2 e2
    by (simp add: block_defs zero_defs range_slice_def)
qed

text \<open>
  C7, amended: when the detector reaches the namespaces and kinds dimensions (the two \<open>any\<close>
  lists are not both populated and \<open>exclude.names\<close> is empty, so that neither decided the
  result before) and \<open>exclude.namespaces\<close> is non-empty, a conflict is reported only if
  \<open>match.namespaces\<close> is non-empty and contained in \<open>exclude.namespaces\<close>; likewise for kinds.
  In particular, under the same two conditions, \<open>exclude.namespaces\<close> = ["prod"] with
  \<open>match.namespaces\<close> = ["prod", "staging"] gives no error, and \<open>exclude.kinds\<close> = ["Pod"] with
  \<open>match.kinds\<close> = ["Pod"] and nothing else set gives exactly one error.
\<close>

theorem namespaces_and_kinds_contained:
  "(ValidateMathExcludeConflict path r \<noteq> []
      \<and> (len (Any_list (MatchResources r)) = 0 \<or> len (Any_list (ExcludeResources r)) = 0)
      \<and> len (Names (ResourceDescription (ExcludeResources r))) = 0 \<longrightarrow>
        (len (Namespaces (ResourceDescription (ExcludeResources r))) > 0 \<longrightarrow>
           len (Namespaces (ResourceDescription (MatchResources r))) > 0
           \<and> set (range_slice (Namespaces (ResourceDescription (MatchResources r))))
               \<subseteq> set (range_slice (Namespaces (ResourceDescription (ExcludeResources r)))))
        \<and> (len (Kinds (ResourceDescription (ExcludeResources r))) > 0 \<longrightarrow>
           len (Kinds (ResourceDescription (MatchResources r))) > 0
           \<and> set (range_slice (Kinds (ResourceDescription (MatchResources r))))
               \<subseteq> set (range_slice (Kinds (ResourceDescription (ExcludeResources r))))))
   \<and> ((len (Any_list (MatchResources r)) = 0 \<or> len (Any_list (ExcludeResources r)) = 0)
      \<and> len (Names (ResourceDescription (ExcludeResources r))) = 0
      \<and> range_slice (Namespaces (ResourceDescription (ExcludeResources r))) = [''prod'']
      \<and> range_slice (Namespaces (ResourceDescription (MatchResources r))) = [''prod'', ''staging''] \<longrightarrow>
        ValidateMathExcludeConflict path r = [])
   \<and> ValidateMathExcludeConflict path rule_prod_staging_minus_prod = []
   \<and> ValidateMathExcludeConflict path rule_pod_minus_pod = [empty_set_error path rule_pod_minus_pod]"
proof -
  have namespaces: "len (Namespaces (ResourceDescription (MatchResources r))) > 0
           \<and> set (range_slice (Namespaces (ResourceDescription (MatchResources r))))
               \<subseteq> set (range_slice (Namespaces (ResourceDescription (ExcludeResources r))))"
    if conflict: "ValidateMathExcludeConflict path r \<noteq> []"
      and anys: "len (Any_list (MatchResources r)) = 0 \<or> len (Any_list (ExcludeResources r)) = 0"
      and names: "len (Names (ResourceDescription (ExcludeResources r))) = 0"
      and populated: "len (Namespaces (ResourceDescription (ExcludeResources r))) > 0"
  proof (rule ccontr)
    assume "\<not> ?thesis"
    then have "len (Namespaces (ResourceDescription (MatchResources r))) = 0
         \<or> \<not> set (range_slice (Namespaces (ResourceDescription (MatchResources r))))
               \<subseteq> set (range_slice (Namespaces (ResourceDescription (ExcludeResources r))))"
      by simp
    from namespaces_not_contained_no_conflict [OF anys names populated this] conflict
    show False by simp
  qed
  have kinds: "len (Kinds (ResourceDescription (MatchResources r))) > 0
           \<and> set (range_slice (Kinds (ResourceDescription (MatchResources r))))
               \<subseteq> set (range_slice (Kinds (ResourceDescription (ExcludeResources r))))"
    if conflict: "ValidateMathExcludeConflict path r \<noteq> []"
      and anys: "len (Any_list (MatchResources r)) = 0 \<or> len (Any_list (ExcludeResources r)) = 0"
      and names: "len (Names (ResourceDescription (ExcludeResources r))) = 0"
      and populated: "len (Kinds (ResourceDescription (ExcludeResources r))) > 0"
  proof (rule ccontr)
    assume "\<not> ?thesis"
    then have "len (Kinds (ResourceDescription (MatchResources r))) = 0
         \<or> \<not> set (range_slice (Kinds (ResourceDescription (MatchResources r))))
               \<subseteq> set (range_slice (Kinds (ResourceDescription (ExcludeResources r))))"
      by simp
    from kinds_not_contained_no_conflict [OF anys names populated this] conflict
    show False by simp
  qed
  have prod: "ValidateMathExcludeConflict path r = []"
    if anys: "len (Any_list (MatchResources r)) = 0 \<or> len (Any_list (ExcludeResources r)) = 0"
      and names: "len (Names (ResourceDescription (ExcludeResources r))) = 0"
      and e: "range_slice (Namespaces (ResourceDescription (ExcludeResources r))) = [''prod'']"
      and m: "range_slice (Namespaces (ResourceDescription (MatchResources r))) = [''prod'', ''staging'']"
  proof -
    have populated: "len (Namespaces (ResourceDescription (ExcludeResources r))) > 0"
      by (simp add: len_pos e)
    have "len (Namespaces (ResourceDescription (MatchResources r))) = 0
         \<or> \<not> set (range_slice (Namespaces (ResourceDescription (MatchResources r))))
               \<subseteq> set (range_slice (Namespaces (ResourceDescription (ExcludeResources r))))"
      by (simp add: e m)
    from namespaces_not_contained_no_conflict [OF anys names populated this] show ?thesis .
  qed
  have m1: "MatchResources rule_prod_staging_minus_prod = namespaces_block [''prod'', ''staging'']"
    and e1: "ExcludeResources rule_prod_staging_minus_prod = namespaces_block [''prod'']"
    by (simp_all add: rule_prod_staging_minus_prod_def)
  have example1: "ValidateMathExcludeConflict path rule_prod_staging_minus_prod = []"
    unfolding detector_defs m1 e1 by (simp add: block_defs zero_defs)
  have m2: "MatchResources rule_pod_minus_pod = kinds_block [''Pod'']"
    and e2: "ExcludeResources rule_pod_minus_pod = kinds_block [''Pod'']"
    by (simp_all add: rule_pod_minus_pod_def)
  have example2: "ValidateMathExcludeConflict path rule_pod_minus_pod = [empty_set_error path rule_pod_minus_pod]"
    unfolding detector_defs m2 e2 by (simp add: block_defs zero_defs)
  from namespaces kinds prod example1 example2 show ?thesis
    by blast
qed

theorem namespaces_and_kinds_contained_witness:
  "ValidateMathExcludeConflict [''spec''] rule_prod_minus_prod_staging \<noteq> []
   \<and> len (Any_list (MatchResources rule_prod_minus_prod_staging)) = 0
   \<and> len (Names (ResourceDescription (ExcludeResources rule_prod_minus_prod_staging))) = 0
   \<and> len (Namespaces (ResourceDescription (ExcludeResources rule_prod_minus_prod_staging))) > 0
   \<and> len (Namespaces (ResourceDescription (MatchResources rule_prod_minus_prod_staging))) > 0
   \<and> set (range_slice (Namespaces (ResourceDescription (MatchResources rule_prod_minus_prod_staging))))
       \<subseteq> set (range_slice (Namespaces (ResourceDescription (ExcludeResources rule_prod_minus_prod_staging))))
   \<and> range_slice (Namespaces (ResourceDescription (ExcludeResources rule_prod_staging_minus_prod))) = [''prod'']
   \<and> range_slice (Namespaces (ResourceDescription (MatchResources rule_prod_staging_minus_prod))) = [''prod'', ''staging'']
   \<and> ValidateMathExcludeConflict [''spec''] rule_prod_staging_minus_prod = []"
proof -
  have m: "MatchResources rule_prod_minus_prod_staging = namespaces_block [''prod'']"
    and e: "ExcludeResources rule_prod_minus_prod_staging = namespaces_block [''prod'', ''staging'']"
    by (simp_all add: rule_prod_minus_prod_staging_def)
  have m': "MatchResources rule_prod_staging_minus_prod = namespaces_block [''prod'', ''staging'']"
    and e': "ExcludeResources rule_prod_staging_minus_prod = namespaces_block [''prod'']"
    by (simp_all add: rule_prod_staging_minus_prod_def)
  have conflict: "ValidateMathExcludeConflict [''spec''] rule_prod_minus_prod_staging \<noteq> []"
    unfolding detector_defs m e by (simp add: block_defs zero_defs)
  have reached: "len (Any_list (MatchResources rule_prod_minus_prod_staging)) = 0"
      "len (Names (ResourceDescription (ExcludeResources rule_prod_minus_prod_staging))) = 0"
      "len (Namespaces (ResourceDescription (ExcludeResources rule_prod_minus_prod_staging))) > 0"
    by (simp_all add: m e block_defs zero_defs len_def)
  have reached': "len (Any_list (MatchResources rule_prod_staging_minus_prod)) = 0"
      "len (Names (ResourceDescription (ExcludeResources rule_prod_staging_minus_prod))) = 0"
      "range_slice (Namespaces (ResourceDescription (ExcludeResources rule_prod_staging_minus_prod))) = [''prod'']"
      "range_slice (Namespaces (ResourceDescription (MatchResources rule_prod_staging_minus_prod))) = [''prod'', ''staging'']"
    by (simp_all add: m' e' block_defs zero_defs len_def range_slice_def)
  from namespaces_and_kinds_contained [of "[''spec'']" rule_prod_minus_prod_staging]
    namespaces_and_kinds_contained [of "[''spec'']" rule_prod_staging_minus_prod]
    conflict reached reached'
  show ?thesis by blast
qed

section \<open>The conflict detector: label selectors\<close>

text \<open>
  C3, evaluated where the exclude selector asks for more than the match selector. The match
  selector has the single expression \<open>app In [web]\<close>, the exclude selector has it and
  \<open>tier Exists\<close>: the second expression of the exclude selector is not among the expressions
  of the match selector, so by the claim no conflict is proved, and indeed a resource
  labelled \<open>app=web\<close> alone is matched and not excluded. The detector reports "Rule is
  matching an empty set": its loops run over the expressions and labels of the match
  selector and look each up on the exclude side. The same happens for the namespace
  selector, and for \<open>matchLabels\<close> (match {app: web}, exclude {app: web, tier: db}).
\<close>

theorem wider_exclude_selector_reported_as_conflict:
  "requirement_tier \<in> set (range_slice (MatchExpressions (expressions [requirement_app, requirement_tier])))
   \<and> requirement_tier \<notin> set (range_slice (MatchExpressions (expressions [requirement_app])))
   \<and> Selector (ResourceDescription (MatchResources rule_selector_wider_exclude))
       = Some (expressions [requirement_app])
   \<and> Selector (ResourceDescription (ExcludeResources rule_selector_wider_exclude))
       = Some (expressions [requirement_app, requirement_tier])
   \<and> ValidateMathExcludeConflict [''spec''] rule_selector_wider_exclude
       = [empty_set_error [''spec''] rule_selector_wider_exclude]
   \<and> NamespaceSelector (ResourceDescription (MatchResources rule_namespace_selector_wider_exclude))
       = Some (expressions [requirement_app])
   \<and> NamespaceSelector (ResourceDescription (ExcludeResources rule_namespace_selector_wider_exclude))
       = Some (expressions [requirement_app, requirement_tier])
   \<and> ValidateMathExcludeConflict [''spec''] rule_namespace_selector_wider_exclude
       = [empty_set_error [''spec''] rule_namespace_selector_wider_exclude]
   \<and> Selector (ResourceDescription (MatchResources rule_labels_wider_exclude))
       = Some (labels [(''app'', ''web'')])
   \<and> Selector (ResourceDescription (ExcludeResources rule_labels_wider_exclude))
       = Some (labels [(''app'', ''web''), (''tier'', ''db'')])
   \<and> (''tier'', ''db'') \<in> range_map (MatchLabels (labels [(''app'', ''web''), (''tier'', ''db'')]))
   \<and> (''tier'', ''db'') \<notin> range_map (MatchLabels (labels [(''app'', ''web'')]))
   \<and> ValidateMathExcludeConflict [''spec''] rule_labels_wider_exclude
       = [empty_set_error [''spec''] rule_labels_wider_exclude]"
proof -
  have m1: "MatchResources rule_selector_wider_exclude = selector_block (expressions [requirement_app])"
    and e1: "ExcludeResources rule_selector_wider_exclude
        = selector_block (expressions [requirement_app, requirement_tier])"
    by (simp_all add: rule_selector_wider_exclude_def)
  have r1: "ValidateMathExcludeConflict [''spec''] rule_selector_wider_exclude
       = [empty_set_error [''spec''] rule_selector_wider_exclude]"
    unfolding detector_defs m1 e1
    by (simp add: block_defs zero_defs expressions_def requirement_app_def requirement_tier_def
          json_Marshal_Requirement_def len_def range_slice_def)
  have m2: "MatchResources rule_namespace_selector_wider_exclude
        = namespace_selector_block (expressions [requirement_app])"
    and e2: "ExcludeResources rule_namespace_selector_wider_exclude
        = namespace_selector_block (expressions [requirement_app, requirement_tier])"
    by (simp_all add: rule_namespace_selector_wider_exclude_def)
  have r2: "ValidateMathExcludeConflict [''spec''] rule_namespace_selector_wider_exclude
       = [empty_set_error [''spec''] rule_namespace_selector_wider_exclude]"
    unfolding detector_defs m2 e2
    by (simp add: block_defs zero_defs expressions_def requirement_app_def requirement_tier_def
          json_Marshal_Requirement_def len_def range_slice_def)
  have m3: "MatchResources rule_labels_wider_exclude = selector_block (labels [(''app'', ''web'')])"
    and e3: "ExcludeResources rule_labels_wider_exclude
        = selector_block (labels [(''app'', ''web''), (''tier'', ''db'')])"
    by (simp_all add: rule_labels_wider_exclude_def)
  have r3: "ValidateMathExcludeConflict [''spec''] rule_labels_wider_exclude
       = [empty_set_error [''spec''] rule_labels_wider_exclude]"
    unfolding detector_defs m3 e3
    by (simp add: block_defs zero_defs labels_def)
  show ?thesis
    unfolding r1 r2 r3 m1 e1 m2 e2 m3 e3
    by (simp add: block_defs zero_defs expressions_def labels_def requirement_app_def
          requirement_tier_def range_slice_def range_map_def)
qed

end
